theory Spec2Isabelle
  imports Complex_Main "HOL-Library.Sublist"
begin

section \<open>Python strings\<close>

text \<open>
  A Python \<open>str\<close> is modelled as a \<open>string\<close>, a list of 8-bit characters: the code
  points below 256.
\<close>

text \<open>\<open>sub in s\<close> on strings: \<open>s\<close> has \<open>sub\<close> as a contiguous substring.\<close>

fun str_in :: "string \<Rightarrow> string \<Rightarrow> bool" where
  "str_in sub [] = (sub = [])"
| "str_in sub (c # cs) = (prefix sub (c # cs) \<or> str_in sub cs)"

text \<open>
  \<open>str.lower()\<close>: the upper-case letters below 256 are \<open>A\<close> to \<open>Z\<close> and the code points
  0xC0 to 0xDE but 0xD7 (the multiplication sign); each has its lower-case letter 32
  places above.
\<close>

definition lower_char :: "char \<Rightarrow> char" where
  "lower_char c =
     (let n = (of_char c :: nat) in
      if (65 \<le> n \<and> n \<le> 90) \<or> (192 \<le> n \<and> n \<le> 222 \<and> c \<noteq> CHR 0xD7)
      then char_of (n + 32) else c)"

definition lower :: "string \<Rightarrow> string" where
  "lower s = map lower_char s"

text \<open>
  \<open>str.strip()\<close> with no argument removes leading and trailing whitespace; the
  characters below 256 for which \<open>str.isspace\<close> holds are 0x09 to 0x0D, 0x1C to 0x1F, the
  space, 0x85 (next line) and 0xA0 (no-break space).
\<close>

definition is_space :: "char \<Rightarrow> bool" where
  "is_space c =
     (let n = (of_char c :: nat)
      in (9 \<le> n \<and> n \<le> 13) \<or> (28 \<le> n \<and> n \<le> 32) \<or> c = CHR 0x85 \<or> c = CHR 0xA0)"

definition strip :: "string \<Rightarrow> string" where
  "strip s = rev (dropWhile is_space (rev (dropWhile is_space s)))"

text \<open>\<open>s.split(' ')[0]\<close>: the text before the first space, all of \<open>s\<close> when it has none.\<close>

definition split_space_0 :: "string \<Rightarrow> string" where
  "split_space_0 s = takeWhile (\<lambda>c. c \<noteq> CHR '' '') s"

section \<open>Exceptions\<close>

text \<open>
  The exceptions the program can raise: \<open>TypeError\<close> for a row that does not have twelve
  cells, \<open>decimal.InvalidOperation\<close> and \<open>decimal.Overflow\<close> from the decimals, and the
  \<open>ValueError\<close> of \<open>process_csv\<close>.
\<close>

datatype error = TypeError | InvalidOperation | ValueError | Overflow

section \<open>decimal.Decimal\<close>

text \<open>
  A \<open>Decimal\<close> is a finite number, an infinity or a NaN. A finite number is a sign, a
  coefficient and an exponent (the fields \<open>_sign\<close>, \<open>_int\<close>, \<open>_exp\<close> of the Python
  class), and its value is \<open>\<plusminus> _int * 10 ^ _exp\<close>. An infinity has a sign. A NaN has a
  sign, is quiet or signalling, and carries a diagnostic payload, a number that is 0 when
  the NaN has none.
\<close>

datatype decimal =
    is_finite: Decimal (dec_sign: bool) (dec_int: nat) (dec_exp: int)
  | is_infinite: Infinity (dec_sign: bool)
  | is_nan: NaN (dec_sign: bool) (is_snan: bool) (dec_int: nat)

text \<open>The signed coefficient and the value of a finite decimal.\<close>

definition dec_signed :: "decimal \<Rightarrow> int" where
  "dec_signed d = (if dec_sign d then - int (dec_int d) else int (dec_int d))"


text \<open>
  \<open>bool(d)\<close>: a decimal is falsy exactly when it is a finite number whose coefficient is
  zero.
\<close>

definition dec_bool :: "decimal \<Rightarrow> bool" where
  "dec_bool d = (\<not> is_finite d \<or> dec_int d \<noteq> 0)"

text \<open>The number of decimal digits of a coefficient, \<open>len(str(n))\<close>.\<close>

fun ndigits :: "nat \<Rightarrow> nat" where
  "ndigits n = (if n < 10 then 1 else Suc (ndigits (n div 10)))"

declare ndigits.simps [simp del]

text \<open>
  The script never changes the arithmetic context, so additions run in the default one:
  28 significant digits, rounding half to even, exponents between \<open>Emin = -999999\<close> and
  \<open>Emax = 999999\<close>, with the signals \<open>InvalidOperation\<close> and \<open>Overflow\<close> (and
  \<open>DivisionByZero\<close>) trapped, that is, raised as exceptions. \<open>Etiny\<close> is the least
  exponent of a result and \<open>Etop\<close> the greatest exponent of a result of full precision.
\<close>

definition prec :: nat where
  "prec = 28"

definition Emax :: int where
  "Emax = 999999"

definition Emin :: int where
  "Emin = - 999999"

definition Etiny :: int where
  "Etiny = Emin - int prec + 1"

definition Etop :: int where
  "Etop = Emax - int prec + 1"

text \<open>Dropping the last \<open>k\<close> digits of a coefficient, rounding half to even.\<close>

definition round_half_even :: "nat \<Rightarrow> nat \<Rightarrow> nat" where
  "round_half_even c k =
     (let q = c div 10 ^ k; r = c mod 10 ^ k; h = 5 * 10 ^ (k - 1)
      in if h < r \<or> (r = h \<and> odd q) then q + 1 else q)"

text \<open>
  \<open>Decimal._fix_nan\<close>: a payload of more than \<open>prec\<close> digits is cut to its last
  \<open>prec\<close> digits.
\<close>

definition fix_nan :: "decimal \<Rightarrow> decimal" where
  "fix_nan d =
     (if prec < ndigits (dec_int d)
      then NaN (dec_sign d) (is_snan d) (dec_int d mod 10 ^ prec)
      else d)"

text \<open>
  \<open>Decimal._fix\<close>: rounding a result to the context. A zero keeps its exponent within
  \<open>Etiny\<close> and \<open>Emax\<close>. A non-zero number whose adjusted exponent is above \<open>Emax\<close>
  raises \<open>Overflow\<close>; otherwise it is rounded to \<open>prec\<close> digits, or to the exponent
  \<open>Etiny\<close> when it is subnormal (which can give zero), and raises \<open>Overflow\<close> when the
  rounding carries it above \<open>Emax\<close>.
\<close>

definition dec_fix :: "decimal \<Rightarrow> error + decimal" where
  "dec_fix d =
     (if is_nan d then Inr (fix_nan d)
      else if is_infinite d then Inr d
      else if dec_int d = 0
      then Inr (Decimal (dec_sign d) 0 (min (max (dec_exp d) Etiny) Emax))
      else
        let exp_min = int (ndigits (dec_int d)) + dec_exp d - int prec in
        if Etop < exp_min then Inl Overflow
        else
          let exp_min' = max exp_min Etiny in
          if dec_exp d < exp_min' then
            (let q = round_half_even (dec_int d) (nat (exp_min' - dec_exp d));
                 coeff = (if prec < ndigits q then q div 10 else q);
                 exp_min'' = (if prec < ndigits q then exp_min' + 1 else exp_min')
             in if Etop < exp_min'' then Inl Overflow
                else Inr (Decimal (dec_sign d) coeff exp_min''))
          else Inr d)"

text \<open>
  The exact sum of two finite decimals, written at the smaller of the two exponents. A
  zero sum is negative only when both operands are negative zeros.
\<close>

definition dec_exact_sum :: "decimal \<Rightarrow> decimal \<Rightarrow> decimal" where
  "dec_exact_sum a b =
     (let e = min (dec_exp a) (dec_exp b);
          s = dec_signed a * 10 ^ nat (dec_exp a - e) + dec_signed b * 10 ^ nat (dec_exp b - e);
          sg = (if s = 0 then dec_sign a \<and> dec_sign b else s < 0)
      in Decimal sg (nat \<bar>s\<bar>) e)"

text \<open>
  \<open>Decimal.__add__\<close>. A signalling NaN raises \<open>InvalidOperation\<close>; a quiet NaN gives
  itself, the left operand first; infinities of opposite signs raise
  \<open>InvalidOperation\<close>, and otherwise an infinity gives itself; the sum of two finite
  numbers is their exact sum rounded to the context.
\<close>

definition dec_add :: "decimal \<Rightarrow> decimal \<Rightarrow> error + decimal" where
  "dec_add a b =
     (if is_nan a \<and> is_snan a then Inl InvalidOperation
      else if is_nan b \<and> is_snan b then Inl InvalidOperation
      else if is_nan a then Inr (fix_nan a)
      else if is_nan b then Inr (fix_nan b)
      else if is_infinite a then
        (if is_infinite b \<and> dec_sign a \<noteq> dec_sign b then Inl InvalidOperation else Inr a)
      else if is_infinite b then Inr b
      else dec_fix (dec_exact_sum a b))"

text \<open>
  \<open>Decimal(s)\<close> for a string: surrounding whitespace and underscores are removed; what
  is left is an optional sign followed by a number (digits with an optional fraction, at
  least one digit in all, and an optional exponent), by \<open>Inf\<close> or \<open>Infinity\<close>, or by
  \<open>NaN\<close> or \<open>sNaN\<close> with optional payload digits, letters in either case; anything
  else raises \<open>InvalidOperation\<close> (here \<open>None\<close>). The coefficient is the integer and
  fraction digits read together. The conversion is exact: it does not use the context.
  (The C implementation of the module also refuses, with \<open>InvalidOperation\<close>, a number
  whose exponent is beyond its internal limits, about \<open>10 ^ 18\<close> on a 64-bit build; the
  model follows the documented conversion, which has no such limit.)
\<close>

definition is_digit :: "char \<Rightarrow> bool" where
  "is_digit c = ((48::nat) \<le> of_char c \<and> of_char c \<le> (57::nat))"

definition int_of_digits :: "string \<Rightarrow> nat" where
  "int_of_digits ds = foldl (\<lambda>n c. 10 * n + (of_char c - 48)) 0 ds"

definition split_sign :: "string \<Rightarrow> bool \<times> string" where
  "split_sign s =
     (case s of
        [] \<Rightarrow> (False, [])
      | x # xs \<Rightarrow>
          if x = CHR ''-'' then (True, xs)
          else if x = CHR ''+'' then (False, xs)
          else (False, s))"

definition parse_exp :: "string \<Rightarrow> int option" where
  "parse_exp s =
     (case s of
        [] \<Rightarrow> Some 0
      | c # r \<Rightarrow>
          if c = CHR ''e'' \<or> c = CHR ''E'' then
            (let (neg, ds) = split_sign r in
             if ds \<noteq> [] \<and> list_all is_digit ds
             then Some (if neg then - int (int_of_digits ds) else int (int_of_digits ds))
             else None)
          else None)"

definition parse_number :: "bool \<Rightarrow> string \<Rightarrow> decimal option" where
  "parse_number sg s1 =
     (let intpart = takeWhile is_digit s1;
          r1 = dropWhile is_digit s1;
          (fracpart, r2) =
            (case r1 of
               [] \<Rightarrow> ([], [])
             | x # xs \<Rightarrow>
                 if x = CHR ''.'' then (takeWhile is_digit xs, dropWhile is_digit xs)
                 else ([], r1))
      in if intpart @ fracpart = [] then None
         else
           (case parse_exp r2 of
              None \<Rightarrow> None
            | Some e \<Rightarrow>
                Some (Decimal sg (int_of_digits (intpart @ fracpart))
                        (e - int (length fracpart)))))"

definition parse_special :: "bool \<Rightarrow> string \<Rightarrow> decimal option" where
  "parse_special sg s1 =
     (let l = lower s1 in
      if l = ''inf'' \<or> l = ''infinity'' then Some (Infinity sg)
      else
        let signal = prefix ''s'' l;
            r = (if signal then drop 1 l else l)
        in if prefix ''nan'' r \<and> list_all is_digit (drop 3 r)
           then Some (NaN sg signal (int_of_digits (drop 3 r)))
           else None)"

definition Decimal_of_str :: "string \<Rightarrow> decimal option" where
  "Decimal_of_str v =
     (let (sg, s1) = split_sign (filter (\<lambda>c. c \<noteq> CHR ''_'') (strip v)) in
      case parse_number sg s1 of
        Some d \<Rightarrow> Some d
      | None \<Rightarrow> parse_special sg s1)"

text \<open>\<open>str(n)\<close> for a natural number.\<close>

fun str_nat :: "nat \<Rightarrow> string" where
  "str_nat n =
     (if n < 10 then [char_of (48 + n)]
      else str_nat (n div 10) @ [char_of (48 + n mod 10)])"

declare str_nat.simps [simp del]

text \<open>
  \<open>str(d)\<close> (\<open>Decimal.__str__\<close>): for a finite number, plain notation when the
  exponent is at most zero and the number is not too small, scientific notation with one
  digit before the point otherwise; \<open>Infinity\<close>, \<open>NaN\<close> and \<open>sNaN\<close> with the payload
  for the special values.
\<close>

definition dec_str :: "decimal \<Rightarrow> string" where
  "dec_str d =
     (let sign = (if dec_sign d then ''-'' else []) in
      if is_infinite d then sign @ ''Infinity''
      else if is_nan d then
        sign @ (if is_snan d then ''sNaN'' else ''NaN'')
          @ (if dec_int d = 0 then [] else str_nat (dec_int d))
      else
        let ds = str_nat (dec_int d);
            leftdigits = dec_exp d + int (length ds);
            dotplace = (if dec_exp d \<le> 0 \<and> - 6 < leftdigits then leftdigits else 1);
            (intpart, fracpart) =
              (if dotplace \<le> 0
               then (''0'', ''.'' @ replicate (nat (- dotplace)) (CHR ''0'') @ ds)
               else if int (length ds) \<le> dotplace
               then (ds @ replicate (nat (dotplace - int (length ds))) (CHR ''0''), [])
               else (take (nat dotplace) ds, ''.'' @ drop (nat dotplace) ds));
            exp =
              (if leftdigits = dotplace then []
               else ''E'' @ (if leftdigits - dotplace < 0 then ''-'' else ''+'')
                      @ str_nat (nat \<bar>leftdigits - dotplace\<bar>))
        in sign @ intpart @ fracpart @ exp)"

section \<open>Record\<close>

record Record =
  record_type :: string
  buyamt :: "decimal option"
  buycur :: string
  sellamt :: "decimal option"
  sellcur :: string
  fee :: "decimal option"
  fee_cur :: string
  exchange :: string
  group :: string
  comment :: string
  date :: string
  tx_id :: string

text \<open>
  The amount arguments of the constructor are strings when it is called on a row of the
  csv file, and decimals or \<open>None\<close> when it is called by \<open>__add__\<close>.
\<close>

datatype pyval = Str string | Dec decimal | NoneVal

text \<open>The truth value Python gives to a value in a condition.\<close>

fun truthy :: "pyval \<Rightarrow> bool" where
  "truthy (Str s) = (s \<noteq> [])"
| "truthy (Dec d) = dec_bool d"
| "truthy NoneVal = False"

text \<open>\<open>Decimal(v)\<close>.\<close>

fun Decimal_new :: "pyval \<Rightarrow> error + decimal" where
  "Decimal_new (Str s) =
     (case Decimal_of_str s of None \<Rightarrow> Inl InvalidOperation | Some d \<Rightarrow> Inr d)"
| "Decimal_new (Dec d) = Inr d"
| "Decimal_new NoneVal = Inl TypeError"

text \<open>\<open>Decimal(v) if v else None\<close>.\<close>

definition amount :: "pyval \<Rightarrow> error + decimal option" where
  "amount v =
     (if truthy v
      then (case Decimal_new v of Inl e \<Rightarrow> Inl e | Inr d \<Rightarrow> Inr (Some d))
      else Inr None)"

text \<open>\<open>Record.__init__\<close>.\<close>

definition Record_init ::
  "string \<Rightarrow> pyval \<Rightarrow> string \<Rightarrow> pyval \<Rightarrow> string \<Rightarrow> pyval \<Rightarrow> string \<Rightarrow> string \<Rightarrow>
   string \<Rightarrow> string \<Rightarrow> string \<Rightarrow> string \<Rightarrow> error + Record" where
  "Record_init record_type' buyamt' buycur' sellamt' sellcur' fee' fee_cur' exchange'
     group' comment' date' tx_id' =
     (case amount buyamt' of
        Inl e \<Rightarrow> Inl e
      | Inr b \<Rightarrow>
          (case amount sellamt' of
             Inl e \<Rightarrow> Inl e
           | Inr s \<Rightarrow>
               (case amount fee' of
                  Inl e \<Rightarrow> Inl e
                | Inr f \<Rightarrow>
                    Inr \<lparr>record_type = record_type', buyamt = b, buycur = buycur',
                         sellamt = s, sellcur = sellcur', fee = f, fee_cur = fee_cur',
                         exchange = exchange', group = group', comment = comment',
                         date = strip date', tx_id = tx_id'\<rparr>)))"

text \<open>\<open>Record(*row)\<close>: a row that does not have twelve cells raises \<open>TypeError\<close>.\<close>

definition Record_of_row :: "string list \<Rightarrow> error + Record" where
  "Record_of_row row =
     (if length row = 12
      then Record_init (row ! 0) (Str (row ! 1)) (row ! 2) (Str (row ! 3)) (row ! 4)
             (Str (row ! 5)) (row ! 6) (row ! 7) (row ! 8) (row ! 9) (row ! 10) (row ! 11)
      else Inl TypeError)"

text \<open>\<open>Record.__str__\<close>: the record as a csv row.\<close>

definition amount_str :: "decimal option \<Rightarrow> string" where
  "amount_str a = (case a of None \<Rightarrow> [] | Some d \<Rightarrow> dec_str d)"

definition Record_fields :: "Record \<Rightarrow> string list" where
  "Record_fields self =
     [record_type self, amount_str (buyamt self), buycur self,
      amount_str (sellamt self), sellcur self, amount_str (fee self), fee_cur self,
      exchange self, group self, comment self, date self, tx_id self]"

text \<open>\<open>sep.join(xs)\<close>.\<close>

fun join :: "string \<Rightarrow> string list \<Rightarrow> string" where
  "join sep [] = []"
| "join sep [x] = x"
| "join sep (x # y # ys) = x @ sep @ join sep (y # ys)"

definition Record_str :: "Record \<Rightarrow> string" where
  "Record_str self = join '','' (Record_fields self)"

definition exchange_exceptions :: "string list" where
  "exchange_exceptions = [''Wallet'', ''Transaction'']"

text \<open>\<open>Record.__eq__\<close>: whether two records can be combined.\<close>

definition Record_eq :: "Record \<Rightarrow> Record \<Rightarrow> bool" where
  "Record_eq self other =
     (if list_ex (\<lambda>exc. str_in (lower exc) (lower (exchange self))) exchange_exceptions
      then False
      else (record_type self = record_type other \<and>
            buycur self = buycur other \<and>
            sellcur self = sellcur other \<and>
            exchange self = exchange other \<and>
            fee_cur self = fee_cur other \<and>
            split_space_0 (date self) = split_space_0 (date other)))"

text \<open>
  \<open>Record.__add__\<close>: adds two records by adding the amounts. An addition that raises
  ends the merge with its exception.
\<close>

definition amount_sum :: "decimal option \<Rightarrow> decimal option \<Rightarrow> error + pyval" where
  "amount_sum x y =
     (case x of
        None \<Rightarrow> Inr NoneVal
      | Some a \<Rightarrow>
          (case y of
             None \<Rightarrow> Inr NoneVal
           | Some b \<Rightarrow> (case dec_add a b of Inl e \<Rightarrow> Inl e | Inr d \<Rightarrow> Inr (Dec d))))"

definition Record_add :: "Record \<Rightarrow> Record \<Rightarrow> error + Record" where
  "Record_add self other =
     (let group' = (if group self \<noteq> [] then group self else group other);
          comment' = (if comment self \<noteq> [] then comment self else comment other)
      in case amount_sum (buyamt self) (buyamt other) of
           Inl e \<Rightarrow> Inl e
         | Inr buyamt_sum \<Rightarrow>
             (case amount_sum (sellamt self) (sellamt other) of
                Inl e \<Rightarrow> Inl e
              | Inr sellamt_sum \<Rightarrow>
                  (case amount_sum (fee self) (fee other) of
                     Inl e \<Rightarrow> Inl e
                   | Inr fee_sum \<Rightarrow>
                       Record_init (record_type self) buyamt_sum (buycur self)
                         sellamt_sum (sellcur self) fee_sum
                         (fee_cur self) (exchange self) group' comment' (date self)
                         (tx_id self))))"

section \<open>process_csv\<close>

text \<open>
  The input is the list of rows that \<open>csv.reader\<close> yields for the input file. The
  variables of the function make the state of its loop.
\<close>

record state =
  output_list :: "Record option list"
  previous :: "Record option"
  header :: "string list option"

definition lost_fee :: "Record \<Rightarrow> bool" where
  "lost_fee r =
     (record_type r = ''Lost'' \<and> exchange r = ''Binance'' \<and> str_in ''_fee'' (tx_id r))"

text \<open>The body of \<open>for row in csvdata\<close>.\<close>

definition for_body :: "state \<Rightarrow> string list \<Rightarrow> error + state" where
  "for_body s row =
     (case header s of
        None \<Rightarrow> Inr (s\<lparr>header := Some row\<rparr>)
      | Some _ \<Rightarrow>
          (case Record_of_row row of
             Inl e \<Rightarrow> Inl e
           | Inr r \<Rightarrow>
               (case previous s of
                  None \<Rightarrow> Inr (s\<lparr>previous := Some r\<rparr>)
                | Some p \<Rightarrow>
                    if lost_fee r then Inr s
                    else if Record_eq r p then
                      (case Record_add p r of
                         Inl e \<Rightarrow> Inl e
                       | Inr p' \<Rightarrow> Inr (s\<lparr>previous := Some p'\<rparr>))
                    else Inr (s\<lparr>output_list := output_list s @ [Some p], previous := Some r\<rparr>))))"

fun for_rows :: "state \<Rightarrow> string list list \<Rightarrow> error + state" where
  "for_rows s [] = Inr s"
| "for_rows s (row # rows) =
     (case for_body s row of Inl e \<Rightarrow> Inl e | Inr s' \<Rightarrow> for_rows s' rows)"

text \<open>
  The first \<open>with\<close> block: the loop from the initial state, then the unconditional
  \<open>output.append(previous)\<close>. The result is the header and the output list.
\<close>

definition process_csv_read ::
  "string list list \<Rightarrow> error + (string list option \<times> Record option list)" where
  "process_csv_read rows =
     (case for_rows \<lparr>output_list = [], previous = None, header = None\<rparr> rows of
        Inl e \<Rightarrow> Inl e
      | Inr s \<Rightarrow> Inr (header s, output_list s @ [previous s]))"

text \<open>
  The second \<open>with\<close> block writes the header and one line for each element of the
  output list (\<open>str(None)\<close> is \<open>None\<close>); the function then prints the number of
  elements. The result is the text written to the output file and that number.
\<close>

definition str_output :: "Record option \<Rightarrow> string" where
  "str_output x = (case x of None \<Rightarrow> ''None'' | Some r \<Rightarrow> Record_str r)"

definition process_csv :: "string list list \<Rightarrow> error + (string \<times> nat)" where
  "process_csv rows =
     (case process_csv_read rows of
        Inl e \<Rightarrow> Inl e
      | Inr (hdr, out) \<Rightarrow>
          (case hdr of
             None \<Rightarrow> Inl ValueError
           | Some h \<Rightarrow>
               Inr (join '','' h @ [CHR 0x0A]
                      @ concat (map (\<lambda>x. str_output x @ [CHR 0x0A]) out),
                    length out)))"

section \<open>The reducer with the accumulator as left operand\<close>

text \<open>
  The loop as the specification words it: in the accumulating state the equivalence is
  evaluated with the accumulator as its left operand and the incoming record as its
  right operand. Everything else is as in \<open>process_csv\<close>.
\<close>

definition for_body_acc_left :: "state \<Rightarrow> string list \<Rightarrow> error + state" where
  "for_body_acc_left s row =
     (case header s of
        None \<Rightarrow> Inr (s\<lparr>header := Some row\<rparr>)
      | Some _ \<Rightarrow>
          (case Record_of_row row of
             Inl e \<Rightarrow> Inl e
           | Inr r \<Rightarrow>
               (case previous s of
                  None \<Rightarrow> Inr (s\<lparr>previous := Some r\<rparr>)
                | Some p \<Rightarrow>
                    if lost_fee r then Inr s
                    else if Record_eq p r then
                      (case Record_add p r of
                         Inl e \<Rightarrow> Inl e
                       | Inr p' \<Rightarrow> Inr (s\<lparr>previous := Some p'\<rparr>))
                    else Inr (s\<lparr>output_list := output_list s @ [Some p], previous := Some r\<rparr>))))"

fun for_rows_acc_left :: "state \<Rightarrow> string list list \<Rightarrow> error + state" where
  "for_rows_acc_left s [] = Inr s"
| "for_rows_acc_left s (row # rows) =
     (case for_body_acc_left s row of
        Inl e \<Rightarrow> Inl e
      | Inr s' \<Rightarrow> for_rows_acc_left s' rows)"

definition process_csv_read_acc_left ::
  "string list list \<Rightarrow> error + (string list option \<times> Record option list)" where
  "process_csv_read_acc_left rows =
     (case for_rows_acc_left \<lparr>output_list = [], previous = None, header = None\<rparr> rows of
        Inl e \<Rightarrow> Inl e
      | Inr s \<Rightarrow> Inr (header s, output_list s @ [previous s]))"

definition process_csv_acc_left :: "string list list \<Rightarrow> error + (string \<times> nat)" where
  "process_csv_acc_left rows =
     (case process_csv_read_acc_left rows of
        Inl e \<Rightarrow> Inl e
      | Inr (hdr, out) \<Rightarrow>
          (case hdr of
             None \<Rightarrow> Inl ValueError
           | Some h \<Rightarrow>
               Inr (join '','' h @ [CHR 0x0A]
                      @ concat (map (\<lambda>x. str_output x @ [CHR 0x0A]) out),
                    length out)))"

section \<open>Groups\<close>

text \<open>
  A group is a run of records that the loop folds into one: its first record becomes the
  accumulator and each later one is added to it with \<open>previous += record\<close>.
\<close>

fun fold_add :: "Record \<Rightarrow> Record list \<Rightarrow> error + Record" where
  "fold_add a [] = Inr a"
| "fold_add a (b # bs) =
     (case Record_add a b of Inl e \<Rightarrow> Inl e | Inr c \<Rightarrow> fold_add c bs)"

section \<open>Lemmas\<close>

subsection \<open>Strings\<close>



lemma strip_idem: "strip (strip s) = strip s"
proof -
  have a: "dropWhile is_space (rev (dropWhile is_space (rev (dropWhile is_space s)))) = 
           rev (dropWhile is_space (rev (dropWhile is_space s)))" (is "dropWhile _ ?t = ?t")
  proof (cases "dropWhile is_space s")
    case Nil
    show ?thesis unfolding Nil by simp
  next
    case (Cons c cs)
    then have nc: "\<not> is_space c" using hd_dropWhile[of is_space s] by (metis list.sel(1) list.distinct(1))
    have "rev (c # cs) = rev cs @ [c]" by simp
    then have "dropWhile is_space (rev (c # cs)) = dropWhile is_space (rev cs) @ [c] \<or> dropWhile is_space (rev (c # cs)) = [c]"
      using nc by (simp add: dropWhile_append)
    then obtain u where "dropWhile is_space (rev (c # cs)) = u @ [c]" by (metis append_Nil)
    then have "?t = c # rev u" using Cons by simp
    then show ?thesis using nc by simp
  qed
  have b: "dropWhile is_space (dropWhile is_space xs) = dropWhile is_space xs" for xs
    by (simp add: dropWhile_idem)
  show ?thesis unfolding strip_def by (simp add: a b)
qed





subsection \<open>Decimals\<close>









lemma ndigits_lt_10: "n < 10 \<Longrightarrow> ndigits n = 1"
  by (simp add: ndigits.simps[of n])

lemmas ndigits_num =
  ndigits.simps[of "numeral k" for k] ndigits.simps[of 0] ndigits.simps[of 1]
  ndigits.simps[of "Suc 0"] ndigits_lt_10

lemmas dec_add_eval =
  dec_add_def dec_exact_sum_def dec_fix_def dec_signed_def prec_def round_half_even_def
  Emax_def Emin_def Etiny_def Etop_def ndigits_num Let_def

subsection \<open>The constructor and the merge\<close>






lemma Record_init_Inr:
  assumes "amount ba = Inr b" and "amount sa = Inr s" and "amount fa = Inr f"
  shows "Record_init rt ba bc sa sc fa fc ex g cm d tx =
           Inr \<lparr>record_type = rt, buyamt = b, buycur = bc, sellamt = s, sellcur = sc,
                fee = f, fee_cur = fc, exchange = ex, group = g, comment = cm,
                date = strip d, tx_id = tx\<rparr>"
  using assms by (simp add: Record_init_def)

lemma Record_init_fields:
  assumes "Record_init rt ba bc sa sc fa fc ex g cm d tx = Inr r"
  shows "amount ba = Inr (buyamt r)" and "amount sa = Inr (sellamt r)" and "amount fa = Inr (fee r)"
    and "record_type r = rt" and "buycur r = bc" and "sellcur r = sc" and "fee_cur r = fc"
    and "exchange r = ex" and "group r = g" and "comment r = cm" and "date r = strip d"
    and "tx_id r = tx"
proof -
  obtain b where b: "amount ba = Inr b" using assms by (cases "amount ba") (simp_all add: Record_init_def)
  obtain s where s: "amount sa = Inr s" using assms b by (cases "amount sa") (simp_all add: Record_init_def)
  obtain f where f: "amount fa = Inr f" using assms b s by (cases "amount fa") (simp_all add: Record_init_def)
  have r: "r = \<lparr>record_type = rt, buyamt = b, buycur = bc, sellamt = s, sellcur = sc,
                fee = f, fee_cur = fc, exchange = ex, group = g, comment = cm,
                date = strip d, tx_id = tx\<rparr>"
    using assms Record_init_Inr[OF b s f, of rt bc sc fc ex g cm d tx] by simp
  show "amount ba = Inr (buyamt r)" using b r by simp
  show "amount sa = Inr (sellamt r)" using s r by simp
  show "amount fa = Inr (fee r)" using f r by simp
  show "record_type r = rt" using r by simp
  show "buycur r = bc" using r by simp
  show "sellcur r = sc" using r by simp
  show "fee_cur r = fc" using r by simp
  show "exchange r = ex" using r by simp
  show "group r = g" using r by simp
  show "comment r = cm" using r by simp
  show "date r = strip d" using r by simp
  show "tx_id r = tx" using r by simp
qed

lemma Record_add_sums:
  assumes "Record_add a b = Inr c"
  shows "\<exists>u v w. amount_sum (buyamt a) (buyamt b) = Inr u \<and>
           amount_sum (sellamt a) (sellamt b) = Inr v \<and>
           amount_sum (fee a) (fee b) = Inr w \<and>
           Record_init (record_type a) u (buycur a) v (sellcur a) w (fee_cur a) (exchange a)
             (if group a \<noteq> [] then group a else group b)
             (if comment a \<noteq> [] then comment a else comment b) (date a) (tx_id a) = Inr c"
  using assms unfolding Record_add_def Let_def by (auto split: sum.splits)


lemma Record_add_fields:
  assumes "Record_add a b = Inr c"
  shows "\<exists>u. amount_sum (buyamt a) (buyamt b) = Inr u \<and> amount u = Inr (buyamt c)"
    and "\<exists>u. amount_sum (sellamt a) (sellamt b) = Inr u \<and> amount u = Inr (sellamt c)"
    and "\<exists>u. amount_sum (fee a) (fee b) = Inr u \<and> amount u = Inr (fee c)"
    and "record_type c = record_type a" and "buycur c = buycur a" and "sellcur c = sellcur a"
    and "fee_cur c = fee_cur a" and "exchange c = exchange a"
    and "group c = (if group a \<noteq> [] then group a else group b)"
    and "comment c = (if comment a \<noteq> [] then comment a else comment b)"
    and "date c = strip (date a)" and "tx_id c = tx_id a"
proof -
  obtain u v w where s: "amount_sum (buyamt a) (buyamt b) = Inr u"
    "amount_sum (sellamt a) (sellamt b) = Inr v" "amount_sum (fee a) (fee b) = Inr w"
    and i: "Record_init (record_type a) u (buycur a) v (sellcur a) w (fee_cur a) (exchange a)
             (if group a \<noteq> [] then group a else group b)
             (if comment a \<noteq> [] then comment a else comment b) (date a) (tx_id a) = Inr c"
    using Record_add_sums[OF assms] by blast
  note f = Record_init_fields[OF i]
  show "\<exists>u. amount_sum (buyamt a) (buyamt b) = Inr u \<and> amount u = Inr (buyamt c)"
    using s(1) f(1) by blast
  show "\<exists>u. amount_sum (sellamt a) (sellamt b) = Inr u \<and> amount u = Inr (sellamt c)"
    using s(2) f(2) by blast
  show "\<exists>u. amount_sum (fee a) (fee b) = Inr u \<and> amount u = Inr (fee c)"
    using s(3) f(3) by blast
  show "record_type c = record_type a" using f(4) .
  show "buycur c = buycur a" using f(5) .
  show "sellcur c = sellcur a" using f(6) .
  show "fee_cur c = fee_cur a" using f(7) .
  show "exchange c = exchange a" using f(8) .
  show "group c = (if group a \<noteq> [] then group a else group b)" using f(9) .
  show "comment c = (if comment a \<noteq> [] then comment a else comment b)" using f(10) .
  show "date c = strip (date a)" using f(11) .
  show "tx_id c = tx_id a" using f(12) .
qed

lemma Record_of_row_date: "Record_of_row row = Inr r \<Longrightarrow> strip (date r) = date r"
  by (auto simp: Record_of_row_def strip_idem split: if_splits dest: Record_init_fields(11))

lemma Record_add_date: "Record_add a b = Inr c \<Longrightarrow> strip (date c) = date c"
  by (simp add: Record_add_fields(11) strip_idem)





lemma fold_add_fields:
  assumes "fold_add a bs = Inr c" and "strip (date a) = date a"
  shows "date c = date a \<and> record_type c = record_type a \<and> buycur c = buycur a \<and>
         sellcur c = sellcur a \<and> fee_cur c = fee_cur a \<and> exchange c = exchange a \<and>
         tx_id c = tx_id a \<and> strip (date c) = date c"
  using assms
proof (induction bs arbitrary: a)
  case Nil
  then show ?case by simp
next
  case (Cons b bs)
  from Cons.prems(1) obtain a1 where a1: "Record_add a b = Inr a1" and r: "fold_add a1 bs = Inr c"
    by (auto split: sum.splits)
  have d: "date a1 = date a" using Record_add_fields(11)[OF a1] Cons.prems(2) by simp
  then have "strip (date a1) = date a1" using Cons.prems(2) by simp
  from Cons.IH[OF r this] show ?case
    using d Record_add_fields(4-8,12)[OF a1] Cons.prems(2) by simp
qed

subsection \<open>The equivalence\<close>

lemma Record_eq_commute: "Record_eq a b = Record_eq b a"
proof (cases "exchange a = exchange b")
  case True
  then show ?thesis
    unfolding Record_eq_def by (simp add: eq_commute)
next
  case False
  then show ?thesis
    unfolding Record_eq_def by simp
qed



lemma Record_eq_add:
  assumes "Record_add a x = Inr a'" and "strip (date a) = date a"
  shows "Record_eq b a' = Record_eq b a"
  using Record_add_fields(4-8,11)[OF assms(1)] assms(2)
  by (simp add: Record_eq_def)

subsection \<open>The loop\<close>

lemma for_body_header:
  "for_body s row = Inr s' \<Longrightarrow> header s = Some h \<Longrightarrow> header s' = Some h"
  by (auto simp: for_body_def split: sum.splits option.splits if_splits)

lemma for_body_first:
  "for_body \<lparr>output_list = [], previous = None, header = None\<rparr> h =
     Inr \<lparr>output_list = [], previous = None, header = Some h\<rparr>"
  by (simp add: for_body_def)

lemma for_body_second:
  "for_body \<lparr>output_list = [], previous = None, header = Some h\<rparr> row =
     (case Record_of_row row of Inl e \<Rightarrow> Inl e
      | Inr r \<Rightarrow> Inr \<lparr>output_list = [], previous = Some r, header = Some h\<rparr>)"
  by (simp add: for_body_def split: sum.splits)

lemma for_body_third:
  assumes "Record_of_row row = Inr r"
  shows "for_body \<lparr>output_list = out, previous = Some p, header = Some h\<rparr> row =
     (if lost_fee r then Inr \<lparr>output_list = out, previous = Some p, header = Some h\<rparr>
      else if Record_eq r p then
        (case Record_add p r of Inl e \<Rightarrow> Inl e
         | Inr p' \<Rightarrow> Inr \<lparr>output_list = out, previous = Some p', header = Some h\<rparr>)
      else Inr \<lparr>output_list = out @ [Some p], previous = Some r, header = Some h\<rparr>)"
  using assms by (simp add: for_body_def split: sum.splits)

lemma for_body_acc_left_eq: "for_body_acc_left s row = for_body s row"
  unfolding for_body_acc_left_def for_body_def by (simp only: Record_eq_commute)

lemma for_rows_acc_left_eq: "for_rows_acc_left s rows = for_rows s rows"
  by (induction rows arbitrary: s) (simp_all add: for_body_acc_left_eq split: sum.splits)

lemma process_csv_read_acc_left_eq: "process_csv_read_acc_left rows = process_csv_read rows"
  by (simp add: process_csv_read_acc_left_def process_csv_read_def for_rows_acc_left_eq)

lemma process_csv_acc_left_eq: "process_csv_acc_left rows = process_csv rows"
  by (simp add: process_csv_acc_left_def process_csv_def process_csv_read_acc_left_eq)


lemma process_csv_read_header_only: "process_csv_read [h] = Inr (Some h, [None])"
  by (simp add: process_csv_read_def for_body_first)

lemma process_csv_header_only:
  "process_csv [h] = Inr (join '','' h @ [CHR 0x0A] @ ''None'' @ [CHR 0x0A], 1)"
  by (simp add: process_csv_def process_csv_read_header_only str_output_def)

lemma process_csv_read_1:
  assumes "Record_of_row row = Inr r"
  shows "process_csv_read [h, row] = Inr (Some h, [Some r])"
  using assms by (simp add: process_csv_read_def for_body_first for_body_second)

lemma process_csv_read_2_merge:
  assumes "Record_of_row row1 = Inr r1" and "Record_of_row row2 = Inr r2"
    and "\<not> lost_fee r2" and "Record_eq r2 r1" and "Record_add r1 r2 = Inr c"
  shows "process_csv_read [h, row1, row2] = Inr (Some h, [Some c])"
  using assms
  by (simp add: process_csv_read_def for_body_first for_body_second for_body_third)


subsection \<open>Groups\<close>

lemma successively_first_cong:
  assumes "\<And>x. Record_eq x p' = Record_eq x p"
  shows "successively (\<lambda>g g'. \<not> Record_eq (hd g') (hd g)) ((p' # g) # gs)
       = successively (\<lambda>g g'. \<not> Record_eq (hd g') (hd g)) ((p # g') # gs)"
  using assms by (cases gs) simp_all

lemma for_rows_runs:
  assumes "for_rows s rows = Inr s'" and "header s = Some h" and "previous s = Some p"
    and "strip (date p) = date p"
  shows "\<exists>rs g gs c reps.
           map Record_of_row rows = map Inr rs \<and>
           concat (g # gs) = filter (\<lambda>r. \<not> lost_fee r) rs \<and>
           fold_add p g = Inr c \<and> (\<forall>b\<in>set g. Record_eq b p) \<and>
           list_all2 (\<lambda>c g. g \<noteq> [] \<and> fold_add (hd g) (tl g) = Inr c \<and>
                            (\<forall>b\<in>set (tl g). Record_eq b (hd g))) reps gs \<and>
           successively (\<lambda>g g'. \<not> Record_eq (hd g') (hd g)) ((p # g) # gs) \<and>
           output_list s' @ [previous s'] = output_list s @ map Some (c # reps) \<and>
           header s' = Some h"
  using assms
proof (induction rows arbitrary: s p)
  case Nil
  then have "s' = s" by simp
  then show ?case using Nil
    by (intro exI[of _ "[]"] exI[of _ p]) simp
next
  case (Cons row rows)
  let ?G = "\<lambda>c g. g \<noteq> [] \<and> fold_add (hd g) (tl g) = Inr c \<and> (\<forall>b\<in>set (tl g). Record_eq b (hd g))"
  let ?S = "\<lambda>g g'. \<not> Record_eq (hd g') (hd g)"
  from Cons.prems(1) obtain s1 where s1: "for_body s row = Inr s1" and rest: "for_rows s1 rows = Inr s'"
    by (auto split: sum.splits)
  from s1 Cons.prems(2) obtain r where r: "Record_of_row row = Inr r"
    by (auto simp: for_body_def split: sum.splits)
  have h1: "header s1 = Some h" using for_body_header[OF s1 Cons.prems(2)] .
  consider (drop) "lost_fee r" | (merge) "\<not> lost_fee r" "Record_eq r p" | (new) "\<not> lost_fee r" "\<not> Record_eq r p"
    by blast
  then show ?case
  proof cases
    case drop
    then have "s1 = s" using s1 r Cons.prems(2,3) by (simp add: for_body_def)
    then obtain rs g gs c reps where ih:
      "map Record_of_row rows = map Inr rs" "concat (g # gs) = filter (\<lambda>r. \<not> lost_fee r) rs"
      "fold_add p g = Inr c" "\<forall>b\<in>set g. Record_eq b p" "list_all2 ?G reps gs"
      "successively ?S ((p # g) # gs)"
      "output_list s' @ [previous s'] = output_list s @ map Some (c # reps)" "header s' = Some h"
      using Cons.IH[OF rest h1, of p] Cons.prems(3,4) by blast
    show ?thesis
      apply (rule exI[of _ "r # rs"], rule exI[of _ g], rule exI[of _ gs], rule exI[of _ c], rule exI[of _ reps])
      using ih r drop by simp
  next
    case merge
    from s1 r Cons.prems(2,3) merge obtain p' where p': "Record_add p r = Inr p'"
      by (cases "Record_add p r") (simp_all add: for_body_def)
    then have s1_eq: "s1 = s\<lparr>previous := Some p'\<rparr>"
      using s1 r Cons.prems(2,3) merge by (simp add: for_body_def)
    then have prev1: "previous s1 = Some p'" and out1: "output_list s1 = output_list s" by simp_all
    have d1: "strip (date p') = date p'" using p' by (rule Record_add_date)
    have eq: "Record_eq x p' = Record_eq x p" for x
      using Record_eq_add[OF p' Cons.prems(4)] .
    obtain rs g gs c reps where ih:
      "map Record_of_row rows = map Inr rs" "concat (g # gs) = filter (\<lambda>r. \<not> lost_fee r) rs"
      "fold_add p' g = Inr c" "\<forall>b\<in>set g. Record_eq b p'" "list_all2 ?G reps gs"
      "successively ?S ((p' # g) # gs)"
      "output_list s' @ [previous s'] = output_list s1 @ map Some (c # reps)" "header s' = Some h"
      using Cons.IH[OF rest h1 prev1 d1] by blast
    have su: "successively ?S ((p # r # g) # gs)"
      using ih(6) successively_first_cong[of p' p g gs "r # g"] eq by simp
    show ?thesis
      apply (rule exI[of _ "r # rs"], rule exI[of _ "r # g"], rule exI[of _ gs], rule exI[of _ c], rule exI[of _ reps])
      using ih(1-5,7,8) su r merge p' out1 eq by simp
  next
    case new
    then have s1_eq: "s1 = s\<lparr>output_list := output_list s @ [Some p], previous := Some r\<rparr>"
      using s1 r Cons.prems(2,3) by (simp add: for_body_def)
    then have prev1: "previous s1 = Some r" and out1: "output_list s1 = output_list s @ [Some p]" by simp_all
    have d1: "strip (date r) = date r" using r by (rule Record_of_row_date)
    obtain rs g gs c reps where ih:
      "map Record_of_row rows = map Inr rs" "concat (g # gs) = filter (\<lambda>r. \<not> lost_fee r) rs"
      "fold_add r g = Inr c" "\<forall>b\<in>set g. Record_eq b r" "list_all2 ?G reps gs"
      "successively ?S ((r # g) # gs)"
      "output_list s' @ [previous s'] = output_list s1 @ map Some (c # reps)" "header s' = Some h"
      using Cons.IH[OF rest h1 prev1 d1] by blast
    show ?thesis
      apply (rule exI[of _ "r # rs"], rule exI[of _ "[]"], rule exI[of _ "(r # g) # gs"], rule exI[of _ p], rule exI[of _ "c # reps"])
      using ih r new out1 by simp
  qed
qed

lemma process_csv_read_runs:
  assumes "process_csv_read (h # row # rows) = Inr (hdr, out)"
  shows "\<exists>r rs gs reps.
           Record_of_row row = Inr r \<and> map Record_of_row rows = map Inr rs \<and>
           hdr = Some h \<and> out = map Some reps \<and>
           concat gs = r # filter (\<lambda>x. \<not> lost_fee x) rs \<and>
           list_all2 (\<lambda>c g. g \<noteq> [] \<and> fold_add (hd g) (tl g) = Inr c \<and>
                            (\<forall>b\<in>set (tl g). Record_eq b (hd g))) reps gs \<and>
           successively (\<lambda>g g'. \<not> Record_eq (hd g') (hd g)) gs"
proof -
  let ?s0 = "\<lparr>output_list = [], previous = None, header = None\<rparr>"
  let ?G = "\<lambda>c g. g \<noteq> [] \<and> fold_add (hd g) (tl g) = Inr c \<and> (\<forall>b\<in>set (tl g). Record_eq b (hd g))"
  let ?S = "\<lambda>g g'. \<not> Record_eq (hd g') (hd g)"
  from assms obtain s' where s': "for_rows ?s0 (h # row # rows) = Inr s'"
    and res: "hdr = header s'" "out = output_list s' @ [previous s']"
    by (auto simp: process_csv_read_def split: sum.splits)
  from s' obtain r where r: "Record_of_row row = Inr r"
    by (cases "Record_of_row row") (simp_all add: for_body_first for_body_second)
  let ?s2 = "\<lparr>output_list = [], previous = Some r, header = Some h\<rparr>"
  have rest: "for_rows ?s2 rows = Inr s'"
    using s' r by (simp add: for_body_first for_body_second)
  have d: "strip (date r) = date r" using r by (rule Record_of_row_date)
  obtain rs g gs c reps where ih:
      "map Record_of_row rows = map Inr rs" "concat (g # gs) = filter (\<lambda>r. \<not> lost_fee r) rs"
      "fold_add r g = Inr c" "\<forall>b\<in>set g. Record_eq b r" "list_all2 ?G reps gs"
      "successively ?S ((r # g) # gs)"
      "output_list s' @ [previous s'] = output_list ?s2 @ map Some (c # reps)" "header s' = Some h"
    using for_rows_runs[OF rest _ _ d, of h] by auto
  show ?thesis
    apply (rule exI[of _ r], rule exI[of _ rs], rule exI[of _ "(r # g) # gs"], rule exI[of _ "c # reps"])
    using ih r res by simp
qed

lemma subseq_map_hd_concat: "[] \<notin> set gs \<Longrightarrow> subseq (map hd gs) (concat gs)"
proof (induction gs)
  case Nil then show ?case by simp
next
  case (Cons g gs)
  then obtain x xs where g: "g = x # xs" by (cases g) auto
  have "subseq (map hd gs) (concat gs)" using Cons by simp
  then have "subseq (map hd gs) (xs @ concat gs)" by (rule list_emb_append2)
  then show ?case using g by simp
qed

lemma parsed_rows_stripped:
  assumes "map Record_of_row rows = map Inr rs" and "x \<in> set rs"
  shows "strip (date x) = date x"
proof -
  have "Inr x \<in> set (map Record_of_row rows)" using assms by simp
  then obtain row where "Record_of_row row = Inr x" by auto
  then show ?thesis by (rule Record_of_row_date)
qed

lemma run_head_stripped:
  assumes "Record_of_row row = Inr r" and "map Record_of_row rows = map Inr rs"
    and "concat gs = r # filter (\<lambda>x. \<not> lost_fee x) rs" and "g \<in> set gs" and "g \<noteq> []"
  shows "strip (date (hd g)) = date (hd g)"
proof -
  have "hd g \<in> set g" using assms(5) by simp
  then have "hd g \<in> set (concat gs)" using assms(4) by auto
  then have "hd g = r \<or> hd g \<in> set rs" using assms(3) by auto
  then show ?thesis
    using Record_of_row_date[OF assms(1)] parsed_rows_stripped[OF assms(2)] by blast
qed


lemma process_csv_read_dates:
  assumes "process_csv_read (h # row # rows) = Inr (hdr, out)"
  shows "\<exists>r rs gs reps.
           Record_of_row row = Inr r \<and> map Record_of_row rows = map Inr rs \<and>
           out = map Some reps \<and>
           concat gs = r # filter (\<lambda>x. \<not> lost_fee x) rs \<and>
           list_all2 (\<lambda>c g. g \<noteq> [] \<and> fold_add (hd g) (tl g) = Inr c \<and>
                            date c = date (hd g) \<and> strip (date c) = date c) reps gs"
proof -
  let ?G = "\<lambda>c g. g \<noteq> [] \<and> fold_add (hd g) (tl g) = Inr c \<and> (\<forall>b\<in>set (tl g). Record_eq b (hd g))"
  obtain r rs gs reps where run:
    "Record_of_row row = Inr r" "map Record_of_row rows = map Inr rs" "out = map Some reps"
    "concat gs = r # filter (\<lambda>x. \<not> lost_fee x) rs" "list_all2 ?G reps gs"
    using process_csv_read_runs[OF assms] by blast
  have "list_all2 (\<lambda>c g. g \<noteq> [] \<and> fold_add (hd g) (tl g) = Inr c \<and>
                            date c = date (hd g) \<and> strip (date c) = date c) reps gs"
    using run(5)
  proof (rule list.rel_mono_strong)
    fix c g
    assume "c \<in> set reps" and g: "g \<in> set gs" and G: "?G c g"
    then have "strip (date (hd g)) = date (hd g)"
      using run_head_stripped[OF run(1,2,4)] by blast
    then show "g \<noteq> [] \<and> fold_add (hd g) (tl g) = Inr c \<and>
                            date c = date (hd g) \<and> strip (date c) = date c"
      using G fold_add_fields[of "hd g" "tl g" c] by blast
  qed
  then show ?thesis using run(1-4) by blast
qed


subsection \<open>Example rows\<close>

lemma ex_row1: "Record_of_row [''Trade'', ''1'', ''BTC'', ''2'', ''XMR'', ''0.1'', ''BTC'', ''Poloniex'', [], [], ''30.08.2016 13:31'', ''tx1'']
   = Inr \<lparr>record_type = ''Trade'', buyamt = Some (Decimal False 1 0),
           buycur = ''BTC'', sellamt = Some (Decimal False 2 0),
           sellcur = ''XMR'', fee = Some (Decimal False 1 (- 1)),
           fee_cur = ''BTC'', exchange = ''Poloniex'', group = [],
           comment = [], date = ''30.08.2016 13:31'', tx_id = ''tx1''\<rparr>"
  by code_simp

lemma ex_row2: "Record_of_row [''Trade'', ''3'', ''BTC'', ''4'', ''XMR'', ''0.2'', ''BTC'', ''Poloniex'', [], [], ''30.08.2016 14:00'', ''tx1'']
   = Inr \<lparr>record_type = ''Trade'', buyamt = Some (Decimal False 3 0),
           buycur = ''BTC'', sellamt = Some (Decimal False 4 0),
           sellcur = ''XMR'', fee = Some (Decimal False 2 (- 1)),
           fee_cur = ''BTC'', exchange = ''Poloniex'', group = [],
           comment = [], date = ''30.08.2016 14:00'', tx_id = ''tx1''\<rparr>"
  by code_simp

lemma ex_rows_eq:
  "Record_eq
     \<lparr>record_type = ''Trade'', buyamt = Some (Decimal False 3 0),
           buycur = ''BTC'', sellamt = Some (Decimal False 4 0),
           sellcur = ''XMR'', fee = Some (Decimal False 2 (- 1)),
           fee_cur = ''BTC'', exchange = ''Poloniex'', group = [],
           comment = [], date = ''30.08.2016 14:00'', tx_id = ''tx1''\<rparr>
     \<lparr>record_type = ''Trade'', buyamt = Some (Decimal False 1 0),
           buycur = ''BTC'', sellamt = Some (Decimal False 2 0),
           sellcur = ''XMR'', fee = Some (Decimal False 1 (- 1)),
           fee_cur = ''BTC'', exchange = ''Poloniex'', group = [],
           comment = [], date = ''30.08.2016 13:31'', tx_id = ''tx1''\<rparr>"
  by code_simp

lemma ex_rows_not_lost_fee:
  "\<not> lost_fee
     \<lparr>record_type = ''Trade'', buyamt = Some (Decimal False 3 0),
           buycur = ''BTC'', sellamt = Some (Decimal False 4 0),
           sellcur = ''XMR'', fee = Some (Decimal False 2 (- 1)),
           fee_cur = ''BTC'', exchange = ''Poloniex'', group = [],
           comment = [], date = ''30.08.2016 14:00'', tx_id = ''tx1''\<rparr>"
  by (simp add: lost_fee_def)

lemma ex_rows_add:
  "Record_add
     \<lparr>record_type = ''Trade'', buyamt = Some (Decimal False 1 0),
           buycur = ''BTC'', sellamt = Some (Decimal False 2 0),
           sellcur = ''XMR'', fee = Some (Decimal False 1 (- 1)),
           fee_cur = ''BTC'', exchange = ''Poloniex'', group = [],
           comment = [], date = ''30.08.2016 13:31'', tx_id = ''tx1''\<rparr>
     \<lparr>record_type = ''Trade'', buyamt = Some (Decimal False 3 0),
           buycur = ''BTC'', sellamt = Some (Decimal False 4 0),
           sellcur = ''XMR'', fee = Some (Decimal False 2 (- 1)),
           fee_cur = ''BTC'', exchange = ''Poloniex'', group = [],
           comment = [], date = ''30.08.2016 14:00'', tx_id = ''tx1''\<rparr>
   = Inr \<lparr>record_type = ''Trade'', buyamt = Some (Decimal False 4 0),
           buycur = ''BTC'', sellamt = Some (Decimal False 6 0),
           sellcur = ''XMR'', fee = Some (Decimal False 3 (- 1)),
           fee_cur = ''BTC'', exchange = ''Poloniex'', group = [],
           comment = [], date = ''30.08.2016 13:31'', tx_id = ''tx1''\<rparr>"
  by code_simp

lemma ex_rows_str:
  "Record_str \<lparr>record_type = ''Trade'', buyamt = Some (Decimal False 4 0),
           buycur = ''BTC'', sellamt = Some (Decimal False 6 0),
           sellcur = ''XMR'', fee = Some (Decimal False 3 (- 1)),
           fee_cur = ''BTC'', exchange = ''Poloniex'', group = [],
           comment = [], date = ''30.08.2016 13:31'', tx_id = ''tx1''\<rparr>
    = ''Trade,4,BTC,6,XMR,0.3,BTC,Poloniex,,,30.08.2016 13:31,tx1''"
  by code_simp

lemma ex_lost: "Record_of_row [''Lost'', [], [], ''0.00075'', ''BNB'', [], [], ''Binance'', [], [], ''01.02.2021 10:00'', ''123_fee'']
   = Inr \<lparr>record_type = ''Lost'', buyamt = None,
           buycur = [], sellamt = Some (Decimal False 75 (- 5)),
           sellcur = ''BNB'', fee = None,
           fee_cur = [], exchange = ''Binance'', group = [],
           comment = [], date = ''01.02.2021 10:00'', tx_id = ''123_fee''\<rparr>"
  by code_simp

lemma ex_lost_fee: "lost_fee \<lparr>record_type = ''Lost'', buyamt = None,
           buycur = [], sellamt = Some (Decimal False 75 (- 5)),
           sellcur = ''BNB'', fee = None,
           fee_cur = [], exchange = ''Binance'', group = [],
           comment = [], date = ''01.02.2021 10:00'', tx_id = ''123_fee''\<rparr>"
  by (simp add: lost_fee_def)

lemma ex_lost_str:
  "Record_str \<lparr>record_type = ''Lost'', buyamt = None,
           buycur = [], sellamt = Some (Decimal False 75 (- 5)),
           sellcur = ''BNB'', fee = None,
           fee_cur = [], exchange = ''Binance'', group = [],
           comment = [], date = ''01.02.2021 10:00'', tx_id = ''123_fee''\<rparr>
    = ''Lost,,,0.00075,BNB,,,Binance,,,01.02.2021 10:00,123_fee''"
  by code_simp


lemma ex_four_rows:
  "process_csv_read
     [[''Type'', ''Buy'', ''Cur.'', ''Sell'', ''Cur.'', ''Fee'', ''Cur.'', ''Exchange'', ''Group'', ''Comment'', ''Date'', ''Tx-ID''],
      [''Trade'', ''1'', ''BTC'', ''2'', ''XMR'', ''0.1'', ''BTC'', ''Poloniex'', [], [], ''30.08.2016 13:31'', ''tx1''],
      [''Trade'', ''3'', ''BTC'', ''4'', ''XMR'', ''0.2'', ''BTC'', ''Poloniex'', [], [], ''30.08.2016 14:00'', ''tx1''],
      [''Lost'', [], [], ''0.00075'', ''BNB'', [], [], ''Binance'', [], [], ''30.08.2016 14:05'', ''123_fee''],
      [''Trade'', ''5'', ''BTC'', ''6'', ''XMR'', ''0.1'', ''BTC'', ''Poloniex'', [], [], ''31.08.2016 09:00'', ''tx3'']]
   = Inr (Some [''Type'', ''Buy'', ''Cur.'', ''Sell'', ''Cur.'', ''Fee'', ''Cur.'', ''Exchange'', ''Group'', ''Comment'', ''Date'', ''Tx-ID''],
     [Some \<lparr>record_type = ''Trade'', buyamt = Some (Decimal False 4 0), buycur = ''BTC'',
        sellamt = Some (Decimal False 6 0), sellcur = ''XMR'',
        fee = Some (Decimal False 3 (- 1)), fee_cur = ''BTC'', exchange = ''Poloniex'',
        group = [], comment = [], date = ''30.08.2016 13:31'', tx_id = ''tx1''\<rparr>,
      Some \<lparr>record_type = ''Trade'', buyamt = Some (Decimal False 5 0), buycur = ''BTC'',
        sellamt = Some (Decimal False 6 0), sellcur = ''XMR'',
        fee = Some (Decimal False 1 (- 1)), fee_cur = ''BTC'', exchange = ''Poloniex'',
        group = [], comment = [], date = ''31.08.2016 09:00'', tx_id = ''tx3''\<rparr>])"
  by code_simp













text \<open>
  Additions at the limits of the context: a subnormal sum is rounded at the exponent
  \<open>Etiny\<close>, a smaller one underflows to zero, infinities of opposite signs raise
  \<open>InvalidOperation\<close> and a sum above \<open>Emax\<close> raises \<open>Overflow\<close>.
\<close>

lemma ex_subnormal:
  "dec_add (Decimal False 15 (- 1000027)) (Decimal False 0 (- 1000027))
     = Inr (Decimal False 2 (- 1000026))"
  by (simp add: dec_add_eval)

lemma ex_underflow:
  "dec_add (Decimal False 1 (- 1000030)) (Decimal False 1 (- 1000030))
     = Inr (Decimal False 0 (- 1000026))"
  by (simp add: dec_add_eval)

lemma ex_infinities:
  "dec_add (Infinity False) (Infinity True) = Inl InvalidOperation"
  by (simp add: dec_add_def)

lemma ex_overflow:
  "dec_add (Decimal False 9 999999) (Decimal False 9 999999) = Inl Overflow"
  by (simp add: dec_add_eval)

section \<open>Properties of the equivalence\<close>

text \<open>
  C9: the equivalence predicate is symmetric. The exclusion check reads only the
  exchange of the left operand, but the conjunct on equal exchanges makes both orders
  agree.
\<close>

theorem Record_eq_symmetric: "Record_eq a b = Record_eq b a"
  by (rule Record_eq_commute)



text \<open>
  C4: the loop calls \<open>record == previous\<close>, which runs \<open>__eq__\<close> with the incoming
  record as \<open>self\<close> and the accumulator as \<open>other\<close>. Its result, on every list of
  rows, is that of the loop that evaluates the equivalence with the accumulator as the
  left operand and the incoming record as the right operand: both the output list and
  the text written are the same.
\<close>

theorem operand_order_unobservable:
  "process_csv_read rows = process_csv_read_acc_left rows \<and>
   process_csv rows = process_csv_acc_left rows"
  by (simp add: process_csv_read_acc_left_eq process_csv_acc_left_eq)

section \<open>Properties of the merge\<close>




text \<open>
  C6: for a record \<open>a\<close> that the program has built (from a row, or by an earlier
  merge), a record that \<open>Record_add a b\<close> returns has the record type, currencies,
  exchange, fee currency, date and transaction id of \<open>a\<close>, and its group and comment
  are those of \<open>a\<close> when non-empty and those of \<open>b\<close> otherwise. Consequently, on every
  input with at least one data row, the kept records split into consecutive non-empty
  groups, one for each output record, in order, and each output record is its group
  folded from the left and carries the full date of the first record of the group.
\<close>

theorem merge_keeps_accumulator_fields:
  "((Record_of_row row0 = Inr a \<or> Record_add a0 b0 = Inr a) \<and> Record_add a b = Inr c \<longrightarrow>
         record_type c = record_type a \<and> buycur c = buycur a \<and> sellcur c = sellcur a \<and>
         exchange c = exchange a \<and> fee_cur c = fee_cur a \<and> date c = date a \<and>
         tx_id c = tx_id a \<and>
         group c = (if group a \<noteq> [] then group a else group b) \<and>
         comment c = (if comment a \<noteq> [] then comment a else comment b))
   \<and> (process_csv_read (h # row # rows) = Inr (hdr, out) \<longrightarrow>
      (\<exists>r rs gs reps.
           Record_of_row row = Inr r \<and> map Record_of_row rows = map Inr rs \<and>
           out = map Some reps \<and>
           concat gs = r # filter (\<lambda>x. \<not> lost_fee x) rs \<and>
           list_all2 (\<lambda>c g. g \<noteq> [] \<and> fold_add (hd g) (tl g) = Inr c \<and>
                            date c = date (hd g)) reps gs))"
proof (rule conjI; rule impI)
  assume "(Record_of_row row0 = Inr a \<or> Record_add a0 b0 = Inr a) \<and> Record_add a b = Inr c"
  then have d: "strip (date a) = date a" and c: "Record_add a b = Inr c"
    using Record_of_row_date Record_add_date by blast+
  show "record_type c = record_type a \<and> buycur c = buycur a \<and> sellcur c = sellcur a \<and>
         exchange c = exchange a \<and> fee_cur c = fee_cur a \<and> date c = date a \<and>
         tx_id c = tx_id a \<and>
         group c = (if group a \<noteq> [] then group a else group b) \<and>
         comment c = (if comment a \<noteq> [] then comment a else comment b)"
    using d Record_add_fields(4-12)[OF c] by simp
next
  assume "process_csv_read (h # row # rows) = Inr (hdr, out)"
  then obtain r rs gs reps where run:
    "Record_of_row row = Inr r" "map Record_of_row rows = map Inr rs" "out = map Some reps"
    "concat gs = r # filter (\<lambda>x. \<not> lost_fee x) rs"
    "list_all2 (\<lambda>c g. g \<noteq> [] \<and> fold_add (hd g) (tl g) = Inr c \<and>
                            date c = date (hd g) \<and> strip (date c) = date c) reps gs"
    using process_csv_read_dates by blast
  have "list_all2 (\<lambda>c g. g \<noteq> [] \<and> fold_add (hd g) (tl g) = Inr c \<and>
                            date c = date (hd g)) reps gs"
    using run(5) by (rule list_all2_mono) blast
  then show "\<exists>r rs gs reps.
           Record_of_row row = Inr r \<and> map Record_of_row rows = map Inr rs \<and>
           out = map Some reps \<and>
           concat gs = r # filter (\<lambda>x. \<not> lost_fee x) rs \<and>
           list_all2 (\<lambda>c g. g \<noteq> [] \<and> fold_add (hd g) (tl g) = Inr c \<and>
                            date c = date (hd g)) reps gs"
    using run(1-4) by blast
qed

theorem merge_keeps_accumulator_fields_witness:
  "Record_of_row [''Trade'', ''1'', ''BTC'', ''2'', ''XMR'', ''0.1'', ''BTC'', ''Poloniex'', [], [], ''30.08.2016 13:31'', ''tx1'']
     = Inr \<lparr>record_type = ''Trade'', buyamt = Some (Decimal False 1 0), buycur = ''BTC'',
        sellamt = Some (Decimal False 2 0), sellcur = ''XMR'',
        fee = Some (Decimal False 1 (- 1)), fee_cur = ''BTC'', exchange = ''Poloniex'',
        group = [], comment = [], date = ''30.08.2016 13:31'', tx_id = ''tx1''\<rparr>
   \<and> Record_add \<lparr>record_type = ''Trade'', buyamt = Some (Decimal False 1 0), buycur = ''BTC'',
        sellamt = Some (Decimal False 2 0), sellcur = ''XMR'',
        fee = Some (Decimal False 1 (- 1)), fee_cur = ''BTC'', exchange = ''Poloniex'',
        group = [], comment = [], date = ''30.08.2016 13:31'', tx_id = ''tx1''\<rparr>
        \<lparr>record_type = ''Trade'', buyamt = Some (Decimal False 3 0), buycur = ''BTC'',
        sellamt = Some (Decimal False 4 0), sellcur = ''XMR'',
        fee = Some (Decimal False 2 (- 1)), fee_cur = ''BTC'', exchange = ''Poloniex'',
        group = [], comment = [], date = ''30.08.2016 14:00'', tx_id = ''tx1''\<rparr>
     = Inr \<lparr>record_type = ''Trade'', buyamt = Some (Decimal False 4 0), buycur = ''BTC'',
        sellamt = Some (Decimal False 6 0), sellcur = ''XMR'',
        fee = Some (Decimal False 3 (- 1)), fee_cur = ''BTC'', exchange = ''Poloniex'',
        group = [], comment = [], date = ''30.08.2016 13:31'', tx_id = ''tx1''\<rparr>
   \<and> date \<lparr>record_type = ''Trade'', buyamt = Some (Decimal False 4 0), buycur = ''BTC'',
        sellamt = Some (Decimal False 6 0), sellcur = ''XMR'',
        fee = Some (Decimal False 3 (- 1)), fee_cur = ''BTC'', exchange = ''Poloniex'',
        group = [], comment = [], date = ''30.08.2016 13:31'', tx_id = ''tx1''\<rparr>
     = date \<lparr>record_type = ''Trade'', buyamt = Some (Decimal False 1 0), buycur = ''BTC'',
        sellamt = Some (Decimal False 2 0), sellcur = ''XMR'',
        fee = Some (Decimal False 1 (- 1)), fee_cur = ''BTC'', exchange = ''Poloniex'',
        group = [], comment = [], date = ''30.08.2016 13:31'', tx_id = ''tx1''\<rparr>
   \<and> process_csv_read
     [[''Type'', ''Buy'', ''Cur.'', ''Sell'', ''Cur.'', ''Fee'', ''Cur.'', ''Exchange'', ''Group'', ''Comment'', ''Date'', ''Tx-ID''],
      [''Trade'', ''1'', ''BTC'', ''2'', ''XMR'', ''0.1'', ''BTC'', ''Poloniex'', [], [], ''30.08.2016 13:31'', ''tx1''],
      [''Trade'', ''3'', ''BTC'', ''4'', ''XMR'', ''0.2'', ''BTC'', ''Poloniex'', [], [], ''30.08.2016 14:00'', ''tx1''],
      [''Lost'', [], [], ''0.00075'', ''BNB'', [], [], ''Binance'', [], [], ''30.08.2016 14:05'', ''123_fee''],
      [''Trade'', ''5'', ''BTC'', ''6'', ''XMR'', ''0.1'', ''BTC'', ''Poloniex'', [], [], ''31.08.2016 09:00'', ''tx3'']]
   = Inr (Some [''Type'', ''Buy'', ''Cur.'', ''Sell'', ''Cur.'', ''Fee'', ''Cur.'', ''Exchange'', ''Group'', ''Comment'', ''Date'', ''Tx-ID''],
     [Some \<lparr>record_type = ''Trade'', buyamt = Some (Decimal False 4 0), buycur = ''BTC'',
        sellamt = Some (Decimal False 6 0), sellcur = ''XMR'',
        fee = Some (Decimal False 3 (- 1)), fee_cur = ''BTC'', exchange = ''Poloniex'',
        group = [], comment = [], date = ''30.08.2016 13:31'', tx_id = ''tx1''\<rparr>,
      Some \<lparr>record_type = ''Trade'', buyamt = Some (Decimal False 5 0), buycur = ''BTC'',
        sellamt = Some (Decimal False 6 0), sellcur = ''XMR'',
        fee = Some (Decimal False 1 (- 1)), fee_cur = ''BTC'', exchange = ''Poloniex'',
        group = [], comment = [], date = ''31.08.2016 09:00'', tx_id = ''tx3''\<rparr>])
   \<and> (\<exists>r rs gs reps.
           Record_of_row [''Trade'', ''1'', ''BTC'', ''2'', ''XMR'', ''0.1'', ''BTC'', ''Poloniex'', [], [], ''30.08.2016 13:31'', ''tx1''] = Inr r \<and>
           map Record_of_row [[''Trade'', ''3'', ''BTC'', ''4'', ''XMR'', ''0.2'', ''BTC'', ''Poloniex'', [], [], ''30.08.2016 14:00'', ''tx1''],
      [''Lost'', [], [], ''0.00075'', ''BNB'', [], [], ''Binance'', [], [], ''30.08.2016 14:05'', ''123_fee''],
      [''Trade'', ''5'', ''BTC'', ''6'', ''XMR'', ''0.1'', ''BTC'', ''Poloniex'', [], [], ''31.08.2016 09:00'', ''tx3'']] = map Inr rs \<and>
           [Some \<lparr>record_type = ''Trade'', buyamt = Some (Decimal False 4 0), buycur = ''BTC'',
        sellamt = Some (Decimal False 6 0), sellcur = ''XMR'',
        fee = Some (Decimal False 3 (- 1)), fee_cur = ''BTC'', exchange = ''Poloniex'',
        group = [], comment = [], date = ''30.08.2016 13:31'', tx_id = ''tx1''\<rparr>,
      Some \<lparr>record_type = ''Trade'', buyamt = Some (Decimal False 5 0), buycur = ''BTC'',
        sellamt = Some (Decimal False 6 0), sellcur = ''XMR'',
        fee = Some (Decimal False 1 (- 1)), fee_cur = ''BTC'', exchange = ''Poloniex'',
        group = [], comment = [], date = ''31.08.2016 09:00'', tx_id = ''tx3''\<rparr>] = map Some reps \<and>
           concat gs = r # filter (\<lambda>x. \<not> lost_fee x) rs \<and>
           list_all2 (\<lambda>c g. g \<noteq> [] \<and> fold_add (hd g) (tl g) = Inr c \<and>
                            date c = date (hd g)) reps gs)"
proof -
  let ?a = "\<lparr>record_type = ''Trade'', buyamt = Some (Decimal False 1 0), buycur = ''BTC'',
        sellamt = Some (Decimal False 2 0), sellcur = ''XMR'',
        fee = Some (Decimal False 1 (- 1)), fee_cur = ''BTC'', exchange = ''Poloniex'',
        group = [], comment = [], date = ''30.08.2016 13:31'', tx_id = ''tx1''\<rparr>"
  let ?b = "\<lparr>record_type = ''Trade'', buyamt = Some (Decimal False 3 0), buycur = ''BTC'',
        sellamt = Some (Decimal False 4 0), sellcur = ''XMR'',
        fee = Some (Decimal False 2 (- 1)), fee_cur = ''BTC'', exchange = ''Poloniex'',
        group = [], comment = [], date = ''30.08.2016 14:00'', tx_id = ''tx1''\<rparr>"
  let ?c = "\<lparr>record_type = ''Trade'', buyamt = Some (Decimal False 4 0), buycur = ''BTC'',
        sellamt = Some (Decimal False 6 0), sellcur = ''XMR'',
        fee = Some (Decimal False 3 (- 1)), fee_cur = ''BTC'', exchange = ''Poloniex'',
        group = [], comment = [], date = ''30.08.2016 13:31'', tx_id = ''tx1''\<rparr>"
  from merge_keeps_accumulator_fields[of "[''Trade'', ''1'', ''BTC'', ''2'', ''XMR'', ''0.1'', ''BTC'', ''Poloniex'', [], [], ''30.08.2016 13:31'', ''tx1'']" ?a _ _ ?b ?c "[''Type'', ''Buy'', ''Cur.'', ''Sell'', ''Cur.'', ''Fee'', ''Cur.'', ''Exchange'', ''Group'', ''Comment'', ''Date'', ''Tx-ID'']" "[''Trade'', ''1'', ''BTC'', ''2'', ''XMR'', ''0.1'', ''BTC'', ''Poloniex'', [], [], ''30.08.2016 13:31'', ''tx1'']" "[[''Trade'', ''3'', ''BTC'', ''4'', ''XMR'', ''0.2'', ''BTC'', ''Poloniex'', [], [], ''30.08.2016 14:00'', ''tx1''],
      [''Lost'', [], [], ''0.00075'', ''BNB'', [], [], ''Binance'', [], [], ''30.08.2016 14:05'', ''123_fee''],
      [''Trade'', ''5'', ''BTC'', ''6'', ''XMR'', ''0.1'', ''BTC'', ''Poloniex'', [], [], ''31.08.2016 09:00'', ''tx3'']]" "Some [''Type'', ''Buy'', ''Cur.'', ''Sell'', ''Cur.'', ''Fee'', ''Cur.'', ''Exchange'', ''Group'', ''Comment'', ''Date'', ''Tx-ID'']" "[Some \<lparr>record_type = ''Trade'', buyamt = Some (Decimal False 4 0), buycur = ''BTC'',
        sellamt = Some (Decimal False 6 0), sellcur = ''XMR'',
        fee = Some (Decimal False 3 (- 1)), fee_cur = ''BTC'', exchange = ''Poloniex'',
        group = [], comment = [], date = ''30.08.2016 13:31'', tx_id = ''tx1''\<rparr>,
      Some \<lparr>record_type = ''Trade'', buyamt = Some (Decimal False 5 0), buycur = ''BTC'',
        sellamt = Some (Decimal False 6 0), sellcur = ''XMR'',
        fee = Some (Decimal False 1 (- 1)), fee_cur = ''BTC'', exchange = ''Poloniex'',
        group = [], comment = [], date = ''31.08.2016 09:00'', tx_id = ''tx3''\<rparr>]"]
  have 2: "date ?c = date ?a \<and> (\<exists>r rs gs reps.
           Record_of_row [''Trade'', ''1'', ''BTC'', ''2'', ''XMR'', ''0.1'', ''BTC'', ''Poloniex'', [], [], ''30.08.2016 13:31'', ''tx1''] = Inr r \<and>
           map Record_of_row [[''Trade'', ''3'', ''BTC'', ''4'', ''XMR'', ''0.2'', ''BTC'', ''Poloniex'', [], [], ''30.08.2016 14:00'', ''tx1''],
      [''Lost'', [], [], ''0.00075'', ''BNB'', [], [], ''Binance'', [], [], ''30.08.2016 14:05'', ''123_fee''],
      [''Trade'', ''5'', ''BTC'', ''6'', ''XMR'', ''0.1'', ''BTC'', ''Poloniex'', [], [], ''31.08.2016 09:00'', ''tx3'']] = map Inr rs \<and>
           [Some \<lparr>record_type = ''Trade'', buyamt = Some (Decimal False 4 0), buycur = ''BTC'',
        sellamt = Some (Decimal False 6 0), sellcur = ''XMR'',
        fee = Some (Decimal False 3 (- 1)), fee_cur = ''BTC'', exchange = ''Poloniex'',
        group = [], comment = [], date = ''30.08.2016 13:31'', tx_id = ''tx1''\<rparr>,
      Some \<lparr>record_type = ''Trade'', buyamt = Some (Decimal False 5 0), buycur = ''BTC'',
        sellamt = Some (Decimal False 6 0), sellcur = ''XMR'',
        fee = Some (Decimal False 1 (- 1)), fee_cur = ''BTC'', exchange = ''Poloniex'',
        group = [], comment = [], date = ''31.08.2016 09:00'', tx_id = ''tx3''\<rparr>] = map Some reps \<and>
           concat gs = r # filter (\<lambda>x. \<not> lost_fee x) rs \<and>
           list_all2 (\<lambda>c g. g \<noteq> [] \<and> fold_add (hd g) (tl g) = Inr c \<and>
                            date c = date (hd g)) reps gs)"
    using ex_row1 ex_rows_add ex_four_rows by blast
  show ?thesis
    using ex_row1 ex_rows_add ex_four_rows 2 by (intro conjI) blast+
qed

section \<open>Properties of the reducer\<close>

text \<open>
  C7: the two rows of the end-to-end example (same day, same type, currencies, exchange
  and fee currency) are merged into one record with buy amount 4, sell amount 6, fee 0.3
  and the date of the first row; the output file holds the header and that one line.
\<close>

theorem example_two_rows_merge:
  "process_csv_read
     [h,
      [''Trade'', ''1'', ''BTC'', ''2'', ''XMR'', ''0.1'', ''BTC'', ''Poloniex'', [], [],
       ''30.08.2016 13:31'', ''tx1''],
      [''Trade'', ''3'', ''BTC'', ''4'', ''XMR'', ''0.2'', ''BTC'', ''Poloniex'', [], [],
       ''30.08.2016 14:00'', ''tx1'']]
   = Inr (Some h,
          [Some \<lparr>record_type = ''Trade'', buyamt = Some (Decimal False 4 0),
                 buycur = ''BTC'', sellamt = Some (Decimal False 6 0),
                 sellcur = ''XMR'', fee = Some (Decimal False 3 (- 1)),
                 fee_cur = ''BTC'', exchange = ''Poloniex'', group = [],
                 comment = [], date = ''30.08.2016 13:31'', tx_id = ''tx1''\<rparr>])
   \<and> process_csv
     [h,
      [''Trade'', ''1'', ''BTC'', ''2'', ''XMR'', ''0.1'', ''BTC'', ''Poloniex'', [], [],
       ''30.08.2016 13:31'', ''tx1''],
      [''Trade'', ''3'', ''BTC'', ''4'', ''XMR'', ''0.2'', ''BTC'', ''Poloniex'', [], [],
       ''30.08.2016 14:00'', ''tx1'']]
   = Inr (join '','' h @ [CHR 0x0A]
            @ ''Trade,4,BTC,6,XMR,0.3,BTC,Poloniex,,,30.08.2016 13:31,tx1'' @ [CHR 0x0A], 1)"
  by (simp add: process_csv_def str_output_def ex_rows_str
        process_csv_read_2_merge[OF ex_row1 ex_row2 ex_rows_not_lost_fee ex_rows_eq ex_rows_add])

text \<open>
  C1, at the input where the program departs from it: a Binance lost-fee record in the
  first data row is not discarded. The test \<open>previous is None\<close> comes before the
  lost-fee test, so the record becomes the accumulator and is written to the output.
\<close>

theorem first_row_lost_fee_emitted:
  "process_csv_read
     [h, [''Lost'', [], [], ''0.00075'', ''BNB'', [], [], ''Binance'', [], [],
          ''01.02.2021 10:00'', ''123_fee'']]
   = Inr (Some h,
          [Some \<lparr>record_type = ''Lost'', buyamt = None, buycur = [],
                 sellamt = Some (Decimal False 75 (- 5)), sellcur = ''BNB'', fee = None,
                 fee_cur = [], exchange = ''Binance'', group = [], comment = [],
                 date = ''01.02.2021 10:00'', tx_id = ''123_fee''\<rparr>])
   \<and> lost_fee \<lparr>record_type = ''Lost'', buyamt = None, buycur = [],
                 sellamt = Some (Decimal False 75 (- 5)), sellcur = ''BNB'', fee = None,
                 fee_cur = [], exchange = ''Binance'', group = [], comment = [],
                 date = ''01.02.2021 10:00'', tx_id = ''123_fee''\<rparr>
   \<and> process_csv
     [h, [''Lost'', [], [], ''0.00075'', ''BNB'', [], [], ''Binance'', [], [],
          ''01.02.2021 10:00'', ''123_fee'']]
   = Inr (join '','' h @ [CHR 0x0A]
            @ ''Lost,,,0.00075,BNB,,,Binance,,,01.02.2021 10:00,123_fee'' @ [CHR 0x0A], 1)"
  by (simp add: process_csv_def str_output_def ex_lost_str ex_lost_fee
        process_csv_read_1[OF ex_lost])

text \<open>
  C3, at the input where the program departs from it: a file with a header and no data
  row. The loop leaves \<open>previous\<close> at \<open>None\<close>, the unconditional
  \<open>output.append(previous)\<close> puts it in the output list, and the program writes the
  line \<open>None\<close> and reports one record.
\<close>

theorem header_only_emits_None:
  "process_csv_read [h] = Inr (Some h, [None]) \<and>
   process_csv [h] = Inr (join '','' h @ [CHR 0x0A] @ ''None'' @ [CHR 0x0A], 1)"
  by (simp add: process_csv_read_header_only process_csv_header_only)

text \<open>
  C8: on every input with at least one data row that the program accepts, the records
  kept (the first data record, and the later ones that are not Binance lost-fee records)
  split, in input order, into consecutive non-empty groups; the output records are, in
  the same order, the groups folded from the left. Within a group every later record is
  equivalent to the first, the first record of a group is not equivalent to the first
  record of the group before it, and the first records of the groups form a subsequence
  of the input records.
\<close>

theorem output_order_preserved:
  assumes "process_csv_read (h # row # rows) = Inr (hdr, out)"
  shows "\<exists>r rs gs reps.
           Record_of_row row = Inr r \<and> map Record_of_row rows = map Inr rs \<and>
           out = map Some reps \<and>
           concat gs = r # filter (\<lambda>x. \<not> lost_fee x) rs \<and>
           list_all2 (\<lambda>c g. g \<noteq> [] \<and> fold_add (hd g) (tl g) = Inr c \<and>
                            (\<forall>b\<in>set (tl g). Record_eq b (hd g))) reps gs \<and>
           successively (\<lambda>g g'. \<not> Record_eq (hd g') (hd g)) gs \<and>
           subseq (map hd gs) (r # rs)"
proof -
  let ?G = "\<lambda>c g. g \<noteq> [] \<and> fold_add (hd g) (tl g) = Inr c \<and> (\<forall>b\<in>set (tl g). Record_eq b (hd g))"
  obtain r rs gs reps where run:
    "Record_of_row row = Inr r" "map Record_of_row rows = map Inr rs" "out = map Some reps"
    "concat gs = r # filter (\<lambda>x. \<not> lost_fee x) rs" "list_all2 ?G reps gs"
    "successively (\<lambda>g g'. \<not> Record_eq (hd g') (hd g)) gs"
    using process_csv_read_runs[OF assms] by blast
  have "[] \<notin> set gs"
  proof
    assume "[] \<in> set gs"
    then obtain i where "i < length gs" "gs ! i = []" by (auto simp: in_set_conv_nth)
    then show False using run(5) by (auto simp: list_all2_conv_all_nth)
  qed
  then have "subseq (map hd gs) (concat gs)" by (rule subseq_map_hd_concat)
  moreover have "subseq (concat gs) (r # rs)" using run(4) by simp
  ultimately have "subseq (map hd gs) (r # rs)" by (rule subseq_order.trans)
  then show ?thesis using run by blast
qed

theorem output_order_preserved_witness:
  "process_csv_read
     [[''Type'', ''Buy'', ''Cur.'', ''Sell'', ''Cur.'', ''Fee'', ''Cur.'', ''Exchange'', ''Group'', ''Comment'', ''Date'', ''Tx-ID''],
      [''Trade'', ''1'', ''BTC'', ''2'', ''XMR'', ''0.1'', ''BTC'', ''Poloniex'', [], [], ''30.08.2016 13:31'', ''tx1''],
      [''Trade'', ''3'', ''BTC'', ''4'', ''XMR'', ''0.2'', ''BTC'', ''Poloniex'', [], [], ''30.08.2016 14:00'', ''tx1''],
      [''Lost'', [], [], ''0.00075'', ''BNB'', [], [], ''Binance'', [], [], ''30.08.2016 14:05'', ''123_fee''],
      [''Trade'', ''5'', ''BTC'', ''6'', ''XMR'', ''0.1'', ''BTC'', ''Poloniex'', [], [], ''31.08.2016 09:00'', ''tx3'']]
   = Inr (Some [''Type'', ''Buy'', ''Cur.'', ''Sell'', ''Cur.'', ''Fee'', ''Cur.'', ''Exchange'', ''Group'', ''Comment'', ''Date'', ''Tx-ID''],
     [Some \<lparr>record_type = ''Trade'', buyamt = Some (Decimal False 4 0), buycur = ''BTC'',
        sellamt = Some (Decimal False 6 0), sellcur = ''XMR'',
        fee = Some (Decimal False 3 (- 1)), fee_cur = ''BTC'', exchange = ''Poloniex'',
        group = [], comment = [], date = ''30.08.2016 13:31'', tx_id = ''tx1''\<rparr>,
      Some \<lparr>record_type = ''Trade'', buyamt = Some (Decimal False 5 0), buycur = ''BTC'',
        sellamt = Some (Decimal False 6 0), sellcur = ''XMR'',
        fee = Some (Decimal False 1 (- 1)), fee_cur = ''BTC'', exchange = ''Poloniex'',
        group = [], comment = [], date = ''31.08.2016 09:00'', tx_id = ''tx3''\<rparr>])
   \<and> (\<exists>r rs gs reps.
           Record_of_row [''Trade'', ''1'', ''BTC'', ''2'', ''XMR'', ''0.1'', ''BTC'', ''Poloniex'', [], [], ''30.08.2016 13:31'', ''tx1''] = Inr r \<and>
           map Record_of_row [[''Trade'', ''3'', ''BTC'', ''4'', ''XMR'', ''0.2'', ''BTC'', ''Poloniex'', [], [], ''30.08.2016 14:00'', ''tx1''],
      [''Lost'', [], [], ''0.00075'', ''BNB'', [], [], ''Binance'', [], [], ''30.08.2016 14:05'', ''123_fee''],
      [''Trade'', ''5'', ''BTC'', ''6'', ''XMR'', ''0.1'', ''BTC'', ''Poloniex'', [], [], ''31.08.2016 09:00'', ''tx3'']] = map Inr rs \<and>
           [Some \<lparr>record_type = ''Trade'', buyamt = Some (Decimal False 4 0), buycur = ''BTC'',
        sellamt = Some (Decimal False 6 0), sellcur = ''XMR'',
        fee = Some (Decimal False 3 (- 1)), fee_cur = ''BTC'', exchange = ''Poloniex'',
        group = [], comment = [], date = ''30.08.2016 13:31'', tx_id = ''tx1''\<rparr>,
      Some \<lparr>record_type = ''Trade'', buyamt = Some (Decimal False 5 0), buycur = ''BTC'',
        sellamt = Some (Decimal False 6 0), sellcur = ''XMR'',
        fee = Some (Decimal False 1 (- 1)), fee_cur = ''BTC'', exchange = ''Poloniex'',
        group = [], comment = [], date = ''31.08.2016 09:00'', tx_id = ''tx3''\<rparr>] = map Some reps \<and>
           concat gs = r # filter (\<lambda>x. \<not> lost_fee x) rs \<and>
           list_all2 (\<lambda>c g. g \<noteq> [] \<and> fold_add (hd g) (tl g) = Inr c \<and>
                            (\<forall>b\<in>set (tl g). Record_eq b (hd g))) reps gs \<and>
           successively (\<lambda>g g'. \<not> Record_eq (hd g') (hd g)) gs \<and>
           subseq (map hd gs) (r # rs))"
  using ex_four_rows output_order_preserved[OF ex_four_rows] by (rule conjI)


 


end
